theory Spec2Isabelle
  imports Complex_Main "HOL-Library.Sublist"
begin

section \<open>The agent rosters and their communication charts\<close>

text \<open>
  The two configuration modules \<^verbatim>\<open>viral_video_agency.py\<close> and
  \<^verbatim>\<open>viral_video_agency_nodejs.py\<close> each declare eight \<^verbatim>\<open>Agent\<close> objects and one
  \<^verbatim>\<open>Agency\<close> whose first argument is the communication chart. An \<^verbatim>\<open>Agent\<close> is a
  record of its keyword arguments. The \<^verbatim>\<open>instructions\<close> argument is a block of prompt
  text that no operation of the repository reads; it is left out of the record.
\<close>

datatype tool =
    TaskMasterTool
  | FileOperationTool
  | PythonExecutorTool
  | NodeExecutorTool
  | TypeScriptFileTool
  | PackageJsonTool

text \<open>
  A Python \<^verbatim>\<open>float\<close> is a binary64 number, that is a dyadic rational. The three
  literals used for \<^verbatim>\<open>temperature\<close> denote the following exact values (the doubles
  nearest to one, two and three tenths).
\<close>

definition float_0_1 :: rat where
  "float_0_1 = 3602879701896397 / 36028797018963968"

definition float_0_2 :: rat where
  "float_0_2 = 3602879701896397 / 18014398509481984"

definition float_0_3 :: rat where
  "float_0_3 = 5404319552844595 / 18014398509481984"

record agent =
  name :: string
  description :: string
  tools :: "tool list"
  temperature :: rat

subsection \<open>\<^verbatim>\<open>viral_video_agency.py\<close>\<close>

definition project_manager_py :: agent where
  "project_manager_py = \<lparr>
     name = ''ProjectManager'',
     description = ''Manages the overall Viral Video Engine project, coordinates agents, and tracks progress via Task Master.'',
     tools = [TaskMasterTool, FileOperationTool],
     temperature = float_0_2 \<rparr>"

definition infrastructure_dev_py :: agent where
  "infrastructure_dev_py = \<lparr>
     name = ''InfrastructureDev'',
     description = ''Specializes in project setup, environment configuration, and infrastructure tasks (Task 11).'',
     tools = [FileOperationTool, PythonExecutorTool, TaskMasterTool],
     temperature = float_0_1 \<rparr>"

definition template_dev_py :: agent where
  "template_dev_py = \<lparr>
     name = ''TemplateDev'',
     description = ''Develops the viral template parsing system (Task 12) to structure the 29 templates.'',
     tools = [FileOperationTool, PythonExecutorTool, TaskMasterTool],
     temperature = float_0_2 \<rparr>"

definition script_gen_dev_py :: agent where
  "script_gen_dev_py = \<lparr>
     name = ''ScriptGenDev'',
     description = ''Develops the script generation module using GPT-4o (Task 13).'',
     tools = [FileOperationTool, PythonExecutorTool, TaskMasterTool],
     temperature = float_0_3 \<rparr>"

definition media_dev_py :: agent where
  "media_dev_py = \<lparr>
     name = ''MediaDev'',
     description = ''Develops visual asset collection (Task 14) and audio processing (Task 15) systems.'',
     tools = [FileOperationTool, PythonExecutorTool, TaskMasterTool],
     temperature = float_0_2 \<rparr>"

definition video_assembly_dev_py :: agent where
  "video_assembly_dev_py = \<lparr>
     name = ''VideoAssemblyDev'',
     description = ''Develops the video assembly engine (Task 16) and multi-variant system (Task 17).'',
     tools = [FileOperationTool, PythonExecutorTool, TaskMasterTool],
     temperature = float_0_2 \<rparr>"

definition integration_dev_py :: agent where
  "integration_dev_py = \<lparr>
     name = ''IntegrationDev'',
     description = ''Develops the main application interface (Task 20) and integrates all modules.'',
     tools = [FileOperationTool, PythonExecutorTool, TaskMasterTool],
     temperature = float_0_2 \<rparr>"

definition testing_agent_py :: agent where
  "testing_agent_py = \<lparr>
     name = ''TestingAgent'',
     description = ''Creates and runs tests for all implemented features.'',
     tools = [FileOperationTool, PythonExecutorTool, TaskMasterTool],
     temperature = float_0_1 \<rparr>"

text \<open>The eight agents of the module, in the order of their declaration.\<close>

definition roster_py :: "agent list" where
  "roster_py =
     [project_manager_py, infrastructure_dev_py, template_dev_py, script_gen_dev_py,
      media_dev_py, video_assembly_dev_py, integration_dev_py, testing_agent_py]"

subsection \<open>\<^verbatim>\<open>viral_video_agency_nodejs.py\<close>\<close>

definition project_manager_nodejs :: agent where
  "project_manager_nodejs = \<lparr>
     name = ''ProjectManager'',
     description = ''Manages the Viral Video Engine project, coordinates Node.js development, and tracks progress via Task Master.'',
     tools = [TaskMasterTool, NodeExecutorTool],
     temperature = float_0_2 \<rparr>"

definition infrastructure_dev_nodejs :: agent where
  "infrastructure_dev_nodejs = \<lparr>
     name = ''NodeInfrastructureDev'',
     description = ''Sets up Node.js/TypeScript project structure, dependencies, and configuration (Task 11).'',
     tools = [TypeScriptFileTool, PackageJsonTool, NodeExecutorTool, TaskMasterTool],
     temperature = float_0_1 \<rparr>"

definition template_dev_nodejs :: agent where
  "template_dev_nodejs = \<lparr>
     name = ''NodeTemplateDev'',
     description = ''Develops the viral template system in TypeScript (Task 12).'',
     tools = [TypeScriptFileTool, NodeExecutorTool, TaskMasterTool],
     temperature = float_0_2 \<rparr>"

definition script_gen_dev_nodejs :: agent where
  "script_gen_dev_nodejs = \<lparr>
     name = ''NodeScriptGenDev'',
     description = ''Implements GPT-4o script generation in TypeScript (Task 13).'',
     tools = [TypeScriptFileTool, NodeExecutorTool, TaskMasterTool],
     temperature = float_0_3 \<rparr>"

definition media_dev_nodejs :: agent where
  "media_dev_nodejs = \<lparr>
     name = ''NodeMediaDev'',
     description = ''Implements media processing with Node.js APIs (Tasks 14-15).'',
     tools = [TypeScriptFileTool, NodeExecutorTool, TaskMasterTool],
     temperature = float_0_2 \<rparr>"

definition video_assembly_dev_nodejs :: agent where
  "video_assembly_dev_nodejs = \<lparr>
     name = ''NodeVideoAssemblyDev'',
     description = ''Creates video assembly engine with fluent-ffmpeg (Tasks 16-17).'',
     tools = [TypeScriptFileTool, NodeExecutorTool, TaskMasterTool],
     temperature = float_0_2 \<rparr>"

definition cli_dev_nodejs :: agent where
  "cli_dev_nodejs = \<lparr>
     name = ''NodeCLIDev'',
     description = ''Creates the CLI interface and main application (Task 20).'',
     tools = [TypeScriptFileTool, PackageJsonTool, NodeExecutorTool, TaskMasterTool],
     temperature = float_0_2 \<rparr>"

definition testing_agent_nodejs :: agent where
  "testing_agent_nodejs = \<lparr>
     name = ''NodeTestingAgent'',
     description = ''Creates Jest tests for all TypeScript modules.'',
     tools = [TypeScriptFileTool, NodeExecutorTool, TaskMasterTool],
     temperature = float_0_1 \<rparr>"

definition roster_nodejs :: "agent list" where
  "roster_nodejs =
     [project_manager_nodejs, infrastructure_dev_nodejs, template_dev_nodejs,
      script_gen_dev_nodejs, media_dev_nodejs, video_assembly_dev_nodejs, cli_dev_nodejs,
      testing_agent_nodejs]"

subsection \<open>The agency charts\<close>

text \<open>
  An element of the chart is either one agent (an entry point: the caller may address
  it) or a two-element list \<^verbatim>\<open>[a, b]\<close> (agent \<^verbatim>\<open>a\<close> may delegate to agent \<^verbatim>\<open>b\<close>).
  The \<^verbatim>\<open>shared_instructions\<close> text is left out, as the agents' instructions are.
\<close>

datatype chart_entry = Entry agent | Flow agent agent

record agency =
  agency_chart :: "chart_entry list"
  agency_temperature :: rat
  max_prompt_tokens :: nat

definition viral_video_agency_py :: agency where
  "viral_video_agency_py = \<lparr>
     agency_chart =
       [Entry project_manager_py,
        Flow project_manager_py infrastructure_dev_py,
        Flow project_manager_py template_dev_py,
        Flow project_manager_py script_gen_dev_py,
        Flow project_manager_py media_dev_py,
        Flow project_manager_py video_assembly_dev_py,
        Flow project_manager_py integration_dev_py,
        Flow project_manager_py testing_agent_py,
        Flow infrastructure_dev_py testing_agent_py,
        Flow template_dev_py script_gen_dev_py,
        Flow script_gen_dev_py video_assembly_dev_py,
        Flow media_dev_py video_assembly_dev_py,
        Flow video_assembly_dev_py integration_dev_py,
        Flow integration_dev_py testing_agent_py],
     agency_temperature = float_0_2,
     max_prompt_tokens = 25000 \<rparr>"

definition viral_video_agency_nodejs :: agency where
  "viral_video_agency_nodejs = \<lparr>
     agency_chart =
       [Entry project_manager_nodejs,
        Flow project_manager_nodejs infrastructure_dev_nodejs,
        Flow project_manager_nodejs template_dev_nodejs,
        Flow project_manager_nodejs script_gen_dev_nodejs,
        Flow project_manager_nodejs media_dev_nodejs,
        Flow project_manager_nodejs video_assembly_dev_nodejs,
        Flow project_manager_nodejs cli_dev_nodejs,
        Flow project_manager_nodejs testing_agent_nodejs,
        Flow infrastructure_dev_nodejs testing_agent_nodejs,
        Flow template_dev_nodejs script_gen_dev_nodejs,
        Flow script_gen_dev_nodejs video_assembly_dev_nodejs,
        Flow media_dev_nodejs video_assembly_dev_nodejs,
        Flow video_assembly_dev_nodejs cli_dev_nodejs,
        Flow cli_dev_nodejs testing_agent_nodejs],
     agency_temperature = float_0_2,
     max_prompt_tokens = 25000 \<rparr>"

text \<open>
  The dispatch edges of a chart are its two-element entries, as pairs of role names;
  the entry points are its single-agent entries.
\<close>

fun dispatch_edges :: "chart_entry list \<Rightarrow> (string \<times> string) list" where
  "dispatch_edges [] = []"
| "dispatch_edges (Entry a # es) = dispatch_edges es"
| "dispatch_edges (Flow a b # es) = (name a, name b) # dispatch_edges es"

fun entry_points :: "chart_entry list \<Rightarrow> string list" where
  "entry_points [] = []"
| "entry_points (Entry a # es) = name a # entry_points es"
| "entry_points (Flow a b # es) = entry_points es"

fun chart_agents :: "chart_entry list \<Rightarrow> agent list" where
  "chart_agents [] = []"
| "chart_agents (Entry a # es) = a # chart_agents es"
| "chart_agents (Flow a b # es) = a # b # chart_agents es"

definition has_inbound :: "(string \<times> string) list \<Rightarrow> string \<Rightarrow> bool" where
  "has_inbound edges r = (r \<in> set (map snd edges))"

text \<open>
  A role \<open>r\<close> is reachable from a role \<open>a\<close> when a non-empty path of dispatch edges
  leads from \<open>a\<close> to \<open>r\<close>.
\<close>

definition reachable :: "(string \<times> string) list \<Rightarrow> string \<Rightarrow> string \<Rightarrow> bool" where
  "reachable edges a r = ((a, r) \<in> (set edges)\<^sup>+)"

text \<open>The renaming of roles between the Python-target and the Node.js-target agency.\<close>

definition role_renaming :: "(string \<times> string) list" where
  "role_renaming =
     [(''ProjectManager'', ''ProjectManager''),
      (''InfrastructureDev'', ''NodeInfrastructureDev''),
      (''TemplateDev'', ''NodeTemplateDev''),
      (''ScriptGenDev'', ''NodeScriptGenDev''),
      (''MediaDev'', ''NodeMediaDev''),
      (''VideoAssemblyDev'', ''NodeVideoAssemblyDev''),
      (''IntegrationDev'', ''NodeCLIDev''),
      (''TestingAgent'', ''NodeTestingAgent'')]"

definition rename :: "string \<Rightarrow> string" where
  "rename r = (case map_of role_renaming r of Some r' \<Rightarrow> r' | None \<Rightarrow> r)"

definition rename_edge :: "string \<times> string \<Rightarrow> string \<times> string" where
  "rename_edge e = (rename (fst e), rename (snd e))"

section \<open>The capabilities\<close>

text \<open>
  A capability is a class with a \<^verbatim>\<open>run\<close> method. The method returns a Python value,
  which is a \<^verbatim>\<open>str\<close> on every path that ends in a \<^verbatim>\<open>return\<close> statement and
  \<^verbatim>\<open>None\<close> when the method body ends without one.

  A Python \<^verbatim>\<open>str\<close> is represented by the bytes of its UTF-8 form, one \<open>char\<close> per byte.
  Concatenation, comparison, prefixes and the translation of newlines act on this form
  as they act on the text (a byte below 128 stands for itself only). A \<^verbatim>\<open>str\<close> with a
  lone surrogate has no such form and is not represented.
\<close>

datatype py_value = Str string | NoneValue

fun is_text :: "py_value \<Rightarrow> bool" where
  "is_text (Str t) = True"
| "is_text NoneValue = False"

definition backslash :: string where
  "backslash = [CHR 0x5C]"



text \<open>
  The hard-coded project directory of every capability and start script,
  \<^verbatim>\<open>C:\Users\Stuart\Desktop\Projects\viralengine\<close>.
\<close>

definition project_root :: string where
  "project_root =
     ''C:'' @ backslash @ ''Users'' @ backslash @ ''Stuart'' @ backslash @ ''Desktop''
       @ backslash @ ''Projects'' @ backslash @ ''viralengine''"

subsection \<open>The operating system as seen by the capabilities\<close>

text \<open>
  The capabilities call the operating system through \<^verbatim>\<open>os.path\<close>, \<^verbatim>\<open>os.makedirs\<close>,
  \<^verbatim>\<open>open\<close> and \<^verbatim>\<open>subprocess.run\<close>. The file system is an explicit state: what each
  path names, and the directories. A path names a regular file, with the bytes stored in
  it, or the null device (\<^verbatim>\<open>/dev/null\<close>, \<^verbatim>\<open>NUL\<close>), which takes every write and keeps
  nothing. Other special files (pipes, terminals) are not part of the model.
\<close>

type_synonym path = string

datatype node = Regular string | NullDevice

record filesystem =
  files :: "path \<rightharpoonup> node"
  dirs :: "path set"

datatype open_mode = ReadMode | WriteMode | AppendMode

text \<open>
  Which calls fail, and with which message, is decided by the platform; a platform is a
  record of these decisions, so that every \<^verbatim>\<open>raise\<close> of a library call is a branch of
  the model. An exception is represented by its message \<^verbatim>\<open>str(e)\<close>, the only part of it
  the capabilities use.
\<close>

record platform =
  nt :: bool
  path_join :: "path \<Rightarrow> path \<Rightarrow> path"
  path_dirname :: "path \<Rightarrow> path"
  makedirs :: "filesystem \<Rightarrow> path \<Rightarrow> string + filesystem"
  open_fails :: "filesystem \<Rightarrow> path \<Rightarrow> open_mode \<Rightarrow> string option"
  no_such_file :: "path \<Rightarrow> string"
  text_encode :: "string \<Rightarrow> string + string"
  text_decode :: "string \<Rightarrow> string + string"

text \<open>
  The fields: \<open>nt\<close> tells Windows from POSIX; \<open>path_join\<close> and \<open>path_dirname\<close> are
  \<^verbatim>\<open>os.path.join\<close> (of two strings) and \<^verbatim>\<open>os.path.dirname\<close>; \<open>makedirs fs d\<close> is
  \<^verbatim>\<open>os.makedirs(d, exist_ok=True)\<close>, giving the message of the error it raises or the
  file system with the directories made; \<open>open_fails fs p mode\<close> is the message of the
  \<^verbatim>\<open>OSError\<close> that \<^verbatim>\<open>open(p, mode)\<close> raises, if it raises one for another reason than a
  file missing on reading, whose message is \<open>no_such_file p\<close>; \<open>text_encode\<close> and
  \<open>text_decode\<close> are the default encoding of text files and pipes: from a text to the
  bytes written for it, and from bytes to the text read for them, each giving the message
  of the \<^verbatim>\<open>UnicodeError\<close> it raises (\<open>Inl\<close>) or its result. Nothing is assumed of the two
  but what a theorem states. An input/output error on a file that is already open is not
  part of the model.
\<close>

definition CR :: char where
  "CR = CHR 0x0D"

definition LF :: char where
  "LF = CHR 0x0A"

definition linesep :: "platform \<Rightarrow> string" where
  "linesep os = (if nt os then [CR, LF] else [LF])"

text \<open>
  Files are opened in text mode with the default \<^verbatim>\<open>newline=None\<close>: on writing every
  line feed is replaced by \<^verbatim>\<open>os.linesep\<close>, before the text is encoded; on reading each
  of \<^verbatim>\<open>\r\n\<close>, \<^verbatim>\<open>\r\<close> and \<^verbatim>\<open>\n\<close> is given back as one line feed, after the bytes are
  decoded.
\<close>

definition newlines_out :: "string \<Rightarrow> string \<Rightarrow> string" where
  "newlines_out sep t = concat (map (\<lambda>c. if c = LF then sep else [c]) t)"

fun universal_newlines :: "string \<Rightarrow> string" where
  "universal_newlines [] = []"
| "universal_newlines [c] = [if c = CR then LF else c]"
| "universal_newlines (c # d # cs) =
     (if c = CR \<and> d = LF then LF # universal_newlines cs
      else if c = CR then LF # universal_newlines (d # cs)
      else c # universal_newlines (d # cs))"

text \<open>
  The two changes of a file: it is created or cut to nothing, and bytes are put at its
  end. The null device stays as it is under both.

  \<^verbatim>\<open>open(p, 'w')\<close> creates or truncates a regular file and leaves the null device as it
  is; \<^verbatim>\<open>open(p, 'a')\<close> creates the file when it is missing; \<^verbatim>\<open>f.write(text)\<close> raises
  \<^verbatim>\<open>TypeError\<close> on \<^verbatim>\<open>None\<close>, encodes the text and puts the bytes at the end of a regular
  file; \<^verbatim>\<open>open(p, 'r')\<close> followed by \<^verbatim>\<open>f.read()\<close> decodes all the bytes of the file, none
  for the null device. Each gives the exception's message (\<open>Inl\<close>) or its result, and the
  file system it leaves.
\<close>

definition truncated :: "path \<Rightarrow> filesystem \<Rightarrow> filesystem" where
  "truncated p fs =
     (case files fs p of
        Some NullDevice \<Rightarrow> fs
      | Some (Regular old) \<Rightarrow> fs\<lparr>files := (files fs)(p \<mapsto> Regular [])\<rparr>
      | None \<Rightarrow> fs\<lparr>files := (files fs)(p \<mapsto> Regular [])\<rparr>)"

definition appended :: "path \<Rightarrow> string \<Rightarrow> filesystem \<Rightarrow> filesystem" where
  "appended p bytes fs =
     (case files fs p of
        Some NullDevice \<Rightarrow> fs
      | Some (Regular old) \<Rightarrow> fs\<lparr>files := (files fs)(p \<mapsto> Regular (old @ bytes))\<rparr>
      | None \<Rightarrow> fs\<lparr>files := (files fs)(p \<mapsto> Regular bytes)\<rparr>)"

definition open_w :: "platform \<Rightarrow> path \<Rightarrow> filesystem \<Rightarrow> (string + unit) \<times> filesystem" where
  "open_w os p fs =
     (case open_fails os fs p WriteMode of
        Some e \<Rightarrow> (Inl e, fs)
      | None \<Rightarrow> (Inr (), truncated p fs))"

definition open_a :: "platform \<Rightarrow> path \<Rightarrow> filesystem \<Rightarrow> (string + unit) \<times> filesystem" where
  "open_a os p fs =
     (case open_fails os fs p AppendMode of
        Some e \<Rightarrow> (Inl e, fs)
      | None \<Rightarrow>
          (case files fs p of
             None \<Rightarrow> (Inr (), fs\<lparr>files := (files fs)(p \<mapsto> Regular [])\<rparr>)
           | Some n \<Rightarrow> (Inr (), fs)))"

definition write_type_error :: string where
  "write_type_error = ''write() argument must be str, not None''"

definition f_write ::
  "platform \<Rightarrow> path \<Rightarrow> string option \<Rightarrow> filesystem \<Rightarrow> (string + unit) \<times> filesystem" where
  "f_write os p text fs =
     (case text of
        None \<Rightarrow> (Inl write_type_error, fs)
      | Some t \<Rightarrow>
          (case text_encode os (newlines_out (linesep os) t) of
             Inl e \<Rightarrow> (Inl e, fs)
           | Inr bytes \<Rightarrow> (Inr (), appended p bytes fs)))"

definition node_bytes :: "node \<Rightarrow> string" where
  "node_bytes n = (case n of Regular stored \<Rightarrow> stored | NullDevice \<Rightarrow> [])"

definition open_r_read :: "platform \<Rightarrow> path \<Rightarrow> filesystem \<Rightarrow> string + string" where
  "open_r_read os p fs =
     (case open_fails os fs p ReadMode of
        Some e \<Rightarrow> Inl e
      | None \<Rightarrow>
          (case files fs p of
             None \<Rightarrow> Inl (no_such_file os p)
           | Some n \<Rightarrow>
               (case text_decode os (node_bytes n) of
                  Inl e \<Rightarrow> Inl e
                | Inr t \<Rightarrow> Inr (universal_newlines t))))"

definition os_makedirs :: "platform \<Rightarrow> path \<Rightarrow> filesystem \<Rightarrow> (string + unit) \<times> filesystem" where
  "os_makedirs os d fs =
     (case makedirs os fs d of
        Inl e \<Rightarrow> (Inl e, fs)
      | Inr fs' \<Rightarrow> (Inr (), fs'))"

text \<open>
  Sequencing of statements that may raise: the second runs only when the first has not
  raised, on the file system the first has left.
\<close>

definition and_then ::
  "(string + unit) \<times> filesystem \<Rightarrow> (filesystem \<Rightarrow> (string + 'a) \<times> filesystem)
     \<Rightarrow> (string + 'a) \<times> filesystem" where
  "and_then r k = (case r of (Inl e, fs) \<Rightarrow> (Inl e, fs) | (Inr u, fs) \<Rightarrow> k fs)"

text \<open>
  The handler \<^verbatim>\<open>except Exception as e: return f"Error: {str(e)}"\<close> around the body of
  the file capabilities.
\<close>

definition except_as_text :: "(string + py_value) \<times> filesystem \<Rightarrow> py_value \<times> filesystem" where
  "except_as_text r =
     (case r of (Inl e, fs) \<Rightarrow> (Str (''Error: '' @ e), fs) | (Inr v, fs) \<Rightarrow> (v, fs))"

subsection \<open>\<^verbatim>\<open>FileOperationTool.run\<close> and \<^verbatim>\<open>TypeScriptFileTool.run\<close>\<close>

text \<open>\<^verbatim>\<open>self.content or ""\<close>: \<^verbatim>\<open>None\<close> and the empty string both give the empty string.\<close>

definition content_or_empty :: "string option \<Rightarrow> string" where
  "content_or_empty content = (case content of None \<Rightarrow> [] | Some c \<Rightarrow> c)"

definition FileOperationTool_run ::
  "platform \<Rightarrow> string \<Rightarrow> path \<Rightarrow> string option \<Rightarrow> filesystem \<Rightarrow> py_value \<times> filesystem" where
  "FileOperationTool_run os operation file_path content fs =
     (let full_path = path_join os project_root file_path in
      except_as_text
        (if operation = ''create'' then
           and_then (os_makedirs os (path_dirname os full_path) fs) (\<lambda>fs.
           and_then (open_w os full_path fs) (\<lambda>fs.
           and_then (f_write os full_path (Some (content_or_empty content)) fs) (\<lambda>fs.
             (Inr (Str (''Created file: '' @ file_path)), fs))))
         else if operation = ''read'' then
           (case open_r_read os full_path fs of
              Inl e \<Rightarrow> (Inl e, fs)
            | Inr text \<Rightarrow> (Inr (Str text), fs))
         else if operation = ''write'' then
           and_then (open_w os full_path fs) (\<lambda>fs.
           and_then (f_write os full_path content fs) (\<lambda>fs.
             (Inr (Str (''Updated file: '' @ file_path)), fs)))
         else if operation = ''append'' then
           and_then (open_a os full_path fs) (\<lambda>fs.
           and_then (f_write os full_path content fs) (\<lambda>fs.
             (Inr (Str (''Appended to file: '' @ file_path)), fs)))
         else (Inr NoneValue, fs)))"

text \<open>
  The body of \<^verbatim>\<open>TypeScriptFileTool.run\<close> in \<^verbatim>\<open>viral_video_agency_nodejs.py\<close> is the
  same text as that of \<^verbatim>\<open>FileOperationTool.run\<close>.
\<close>

definition TypeScriptFileTool_run ::
  "platform \<Rightarrow> string \<Rightarrow> path \<Rightarrow> string option \<Rightarrow> filesystem \<Rightarrow> py_value \<times> filesystem" where
  "TypeScriptFileTool_run = FileOperationTool_run"

subsection \<open>Processes: \<^verbatim>\<open>NodeExecutorTool.run\<close> and \<^verbatim>\<open>TaskMasterTool.run\<close>\<close>












subsection \<open>A platform to run the capabilities on\<close>



























section \<open>Start-up of the scripts\<close>

text \<open>
  The start scripts read secrets from the process environment, a dictionary from names
  to strings. \<^verbatim>\<open>not os.getenv(key)\<close> holds when the variable is unset and when it is
  set to the empty string.
\<close>

type_synonym environ = "string \<rightharpoonup> string"

definition getenv_falsy :: "environ \<Rightarrow> string \<Rightarrow> bool" where
  "getenv_falsy env key = (case env key of None \<Rightarrow> True | Some v \<Rightarrow> v = [])"

text \<open>
  How the start-up of a script ends: it calls \<^verbatim>\<open>main()\<close>, it leaves through
  \<^verbatim>\<open>sys.exit\<close> with a status, or an exception that nothing catches ends the process
  (given by its message).
\<close>

datatype outcome = RunsMain | SysExit int | Uncaught string




definition cross_mark :: string where
  "cross_mark = [CHR 0xE2, CHR 0x9D, CHR 0x8C]"




text \<open>
  Each start script imports the agency module before its start-up block runs. The
  import calls \<^verbatim>\<open>set_openai_key(os.getenv("OPENAI_API_KEY"))\<close> and builds the agents and
  the agency, in a library that is not part of the repository. What the library does
  with a missing key is a parameter of the scripts below: \<open>import_error\<close> is the message
  of the exception the import raises, if it raises one. In the same way \<open>chdir_error\<close> is
  the message of the error that \<^verbatim>\<open>os.chdir\<close> to the project directory raises, if it
  raises one. The result of a script is the list of the strings printed, one per
  \<^verbatim>\<open>print\<close> call, and the outcome.
\<close>


text \<open>
  \<^verbatim>\<open>start_building.py\<close>, from the assignment
  \<^verbatim>\<open>os.environ["OPENAI_API_KEY"] = os.getenv("OPENAI_API_KEY")\<close> at the top of the module
  (which raises \<^verbatim>\<open>TypeError\<close> when the value is \<^verbatim>\<open>None\<close>), through the import and the
  change of directory, to the guard and the call of \<^verbatim>\<open>main()\<close>. The environment is the
  one left by \<^verbatim>\<open>load_dotenv()\<close>.
\<close>

definition environ_type_error :: string where
  "environ_type_error = ''str expected, not NoneType''"

definition start_building_script ::
  "string option \<Rightarrow> string option \<Rightarrow> environ \<Rightarrow> string list \<times> outcome" where
  "start_building_script import_error chdir_error env =
     (case env ''OPENAI_API_KEY'' of
        None \<Rightarrow> ([], Uncaught environ_type_error)
      | Some v \<Rightarrow>
          (case import_error of
             Some e \<Rightarrow> ([], Uncaught e)
           | None \<Rightarrow>
               (case chdir_error of
                  Some e \<Rightarrow> ([], Uncaught e)
                | None \<Rightarrow>
                    (if getenv_falsy env ''OPENAI_API_KEY''
                     then ([cross_mark
                              @ '' Error: OPENAI_API_KEY not found in environment variables.'',
                            ''Please set it in your .env file.''],
                           SysExit 1)
                     else ([], RunsMain)))))"

text \<open>\<^verbatim>\<open>start_building_nodejs.py\<close>: the same steps with one message.\<close>

definition start_building_nodejs_script ::
  "string option \<Rightarrow> string option \<Rightarrow> environ \<Rightarrow> string list \<times> outcome" where
  "start_building_nodejs_script import_error chdir_error env =
     (case env ''OPENAI_API_KEY'' of
        None \<Rightarrow> ([], Uncaught environ_type_error)
      | Some v \<Rightarrow>
          (case import_error of
             Some e \<Rightarrow> ([], Uncaught e)
           | None \<Rightarrow>
               (case chdir_error of
                  Some e \<Rightarrow> ([], Uncaught e)
                | None \<Rightarrow>
                    (if getenv_falsy env ''OPENAI_API_KEY''
                     then ([cross_mark @ '' OPENAI_API_KEY not found in .env''], SysExit 1)
                     else ([], RunsMain)))))"

section \<open>Properties of the rosters\<close>

lemmas agents_py =
  project_manager_py_def infrastructure_dev_py_def template_dev_py_def
  script_gen_dev_py_def media_dev_py_def video_assembly_dev_py_def
  integration_dev_py_def testing_agent_py_def

lemmas agents_nodejs =
  project_manager_nodejs_def infrastructure_dev_nodejs_def template_dev_nodejs_def
  script_gen_dev_nodejs_def media_dev_nodejs_def video_assembly_dev_nodejs_def
  cli_dev_nodejs_def testing_agent_nodejs_def

lemma names_py:
  "map name roster_py =
     [''ProjectManager'', ''InfrastructureDev'', ''TemplateDev'', ''ScriptGenDev'',
      ''MediaDev'', ''VideoAssemblyDev'', ''IntegrationDev'', ''TestingAgent'']"
  by (simp add: roster_py_def agents_py)

lemma names_nodejs:
  "map name roster_nodejs =
     [''ProjectManager'', ''NodeInfrastructureDev'', ''NodeTemplateDev'',
      ''NodeScriptGenDev'', ''NodeMediaDev'', ''NodeVideoAssemblyDev'', ''NodeCLIDev'',
      ''NodeTestingAgent'']"
  by (simp add: roster_nodejs_def agents_nodejs)

lemma edges_py:
  "dispatch_edges (agency_chart viral_video_agency_py) =
     [(''ProjectManager'', ''InfrastructureDev''),
      (''ProjectManager'', ''TemplateDev''),
      (''ProjectManager'', ''ScriptGenDev''),
      (''ProjectManager'', ''MediaDev''),
      (''ProjectManager'', ''VideoAssemblyDev''),
      (''ProjectManager'', ''IntegrationDev''),
      (''ProjectManager'', ''TestingAgent''),
      (''InfrastructureDev'', ''TestingAgent''),
      (''TemplateDev'', ''ScriptGenDev''),
      (''ScriptGenDev'', ''VideoAssemblyDev''),
      (''MediaDev'', ''VideoAssemblyDev''),
      (''VideoAssemblyDev'', ''IntegrationDev''),
      (''IntegrationDev'', ''TestingAgent'')]"
  by (simp add: viral_video_agency_py_def agents_py)

lemma edges_nodejs:
  "dispatch_edges (agency_chart viral_video_agency_nodejs) =
     [(''ProjectManager'', ''NodeInfrastructureDev''),
      (''ProjectManager'', ''NodeTemplateDev''),
      (''ProjectManager'', ''NodeScriptGenDev''),
      (''ProjectManager'', ''NodeMediaDev''),
      (''ProjectManager'', ''NodeVideoAssemblyDev''),
      (''ProjectManager'', ''NodeCLIDev''),
      (''ProjectManager'', ''NodeTestingAgent''),
      (''NodeInfrastructureDev'', ''NodeTestingAgent''),
      (''NodeTemplateDev'', ''NodeScriptGenDev''),
      (''NodeScriptGenDev'', ''NodeVideoAssemblyDev''),
      (''NodeMediaDev'', ''NodeVideoAssemblyDev''),
      (''NodeVideoAssemblyDev'', ''NodeCLIDev''),
      (''NodeCLIDev'', ''NodeTestingAgent'')]"
  by (simp add: viral_video_agency_nodejs_def agents_nodejs)

lemma chart_agents_py:
  "set (chart_agents (agency_chart viral_video_agency_py)) = set roster_py"
  by (auto simp add: viral_video_agency_py_def roster_py_def)

lemma chart_agents_nodejs:
  "set (chart_agents (agency_chart viral_video_agency_nodejs)) = set roster_nodejs"
  by (auto simp add: viral_video_agency_nodejs_def roster_nodejs_def)

text \<open>
  Claim C7. Within each roster the role names are pairwise different: the list of the
  eight names has no repetition, in the Python-target module and in the Node.js-target
  module.
\<close>

theorem C7_role_names_unique:
  "length roster_py = 8 \<and> distinct (map name roster_py) \<and>
   length roster_nodejs = 8 \<and> distinct (map name roster_nodejs)"
proof -
  have "length roster_py = 8" "length roster_nodejs = 8"
    by (simp_all add: roster_py_def roster_nodejs_def)
  moreover have "distinct (map name roster_py)"
    unfolding names_py by simp
  moreover have "distinct (map name roster_nodejs)"
    unfolding names_nodejs by simp
  ultimately show ?thesis by simp
qed

lemma float_bounds:
  "0 \<le> float_0_1" "float_0_1 \<le> 1" "0 \<le> float_0_2" "float_0_2 \<le> 1"
  "0 \<le> float_0_3" "float_0_3 \<le> 1"
  by (simp_all add: float_0_1_def float_0_2_def float_0_3_def)

text \<open>Each of the three values is within half a unit in the last place of its decimal.\<close>

lemma float_nearest:
  "\<bar>float_0_1 - 1 / 10\<bar> \<le> 1 / 2 ^ 57"
  "\<bar>float_0_2 - 2 / 10\<bar> \<le> 1 / 2 ^ 56"
  "\<bar>float_0_3 - 3 / 10\<bar> \<le> 1 / 2 ^ 55"
  by (simp_all add: float_0_1_def float_0_2_def float_0_3_def)

text \<open>
  Claim C9. Every role of both rosters declares a temperature in the closed interval
  from 0 to 1; so do the two agencies.
\<close>

theorem C9_temperatures_in_unit_interval:
  "(\<forall>a \<in> set roster_py \<union> set roster_nodejs. 0 \<le> temperature a \<and> temperature a \<le> 1) \<and>
   0 \<le> agency_temperature viral_video_agency_py \<and>
   agency_temperature viral_video_agency_py \<le> 1 \<and>
   0 \<le> agency_temperature viral_video_agency_nodejs \<and>
   agency_temperature viral_video_agency_nodejs \<le> 1"
  by (simp add: roster_py_def roster_nodejs_def agents_py agents_nodejs float_bounds
      viral_video_agency_py_def viral_video_agency_nodejs_def)

theorem C9_witness:
  "0 \<le> temperature script_gen_dev_py \<and> temperature script_gen_dev_py \<le> 1 \<and>
   temperature script_gen_dev_py = 5404319552844595 / 18014398509481984"
proof -
  have "script_gen_dev_py \<in> set roster_py \<union> set roster_nodejs"
    by (simp add: roster_py_def)
  with C9_temperatures_in_unit_interval
  have "0 \<le> temperature script_gen_dev_py \<and> temperature script_gen_dev_py \<le> 1"
    by blast
  then show ?thesis by (simp add: script_gen_dev_py_def float_0_3_def)
qed

text \<open>
  Claim C10. Under the renaming of roles the chart of the Python-target agency is the
  chart of the Node.js-target agency: the renamed dispatch edges are the same (as lists,
  hence as sets), the entry point is the same role \<^verbatim>\<open>ProjectManager\<close>, the renaming maps
  one roster onto the other, and each chart has seven edges from the root and six edges
  between workers.
\<close>

theorem C10_same_topology:
  "map rename_edge (dispatch_edges (agency_chart viral_video_agency_py)) =
     dispatch_edges (agency_chart viral_video_agency_nodejs) \<and>
   set (map rename_edge (dispatch_edges (agency_chart viral_video_agency_py))) =
     set (dispatch_edges (agency_chart viral_video_agency_nodejs)) \<and>
   map rename (entry_points (agency_chart viral_video_agency_py)) =
     entry_points (agency_chart viral_video_agency_nodejs) \<and>
   entry_points (agency_chart viral_video_agency_py) = [''ProjectManager''] \<and>
   map rename (map name roster_py) = map name roster_nodejs \<and>
   length (filter (\<lambda>e. fst e = ''ProjectManager'')
     (dispatch_edges (agency_chart viral_video_agency_py))) = 7 \<and>
   length (filter (\<lambda>e. fst e = ''ProjectManager'')
     (dispatch_edges (agency_chart viral_video_agency_nodejs))) = 7 \<and>
   length (filter (\<lambda>e. fst e \<noteq> ''ProjectManager'')
     (dispatch_edges (agency_chart viral_video_agency_py))) = 6 \<and>
   length (filter (\<lambda>e. fst e \<noteq> ''ProjectManager'')
     (dispatch_edges (agency_chart viral_video_agency_nodejs))) = 6"
proof -
  have e: "map rename_edge (dispatch_edges (agency_chart viral_video_agency_py)) =
     dispatch_edges (agency_chart viral_video_agency_nodejs)"
    unfolding edges_py edges_nodejs
    by (simp add: rename_edge_def rename_def role_renaming_def)
  have p: "map rename (entry_points (agency_chart viral_video_agency_py)) =
     entry_points (agency_chart viral_video_agency_nodejs)"
     "entry_points (agency_chart viral_video_agency_py) = [''ProjectManager'']"
    by (simp_all add: viral_video_agency_py_def viral_video_agency_nodejs_def agents_py
        agents_nodejs rename_def role_renaming_def)
  have n: "map rename (map name roster_py) = map name roster_nodejs"
    unfolding names_py names_nodejs by (simp add: rename_def role_renaming_def)
  have c: "length (filter (\<lambda>e. fst e = ''ProjectManager'')
     (dispatch_edges (agency_chart viral_video_agency_py))) = 7"
   "length (filter (\<lambda>e. fst e = ''ProjectManager'')
     (dispatch_edges (agency_chart viral_video_agency_nodejs))) = 7"
   "length (filter (\<lambda>e. fst e \<noteq> ''ProjectManager'')
     (dispatch_edges (agency_chart viral_video_agency_py))) = 6"
   "length (filter (\<lambda>e. fst e \<noteq> ''ProjectManager'')
     (dispatch_edges (agency_chart viral_video_agency_nodejs))) = 6"
    unfolding edges_py edges_nodejs by simp_all
  from e p n c show ?thesis by simp
qed

subsection \<open>Connectivity of the charts\<close>

lemma direct_edge_reachable: "(a, r) \<in> set es \<Longrightarrow> reachable es a r"
  unfolding reachable_def by (rule r_into_trancl')

lemma direct_edge_inbound: "(a, r) \<in> set es \<Longrightarrow> has_inbound es r"
  unfolding has_inbound_def set_map by (rule image_eqI [where x = "(a, r)"]) simp_all

lemma root_edges_py:
  assumes "r \<in> set (map name roster_py)" and "r \<noteq> ''ProjectManager''"
  shows "(''ProjectManager'', r) \<in> set (dispatch_edges (agency_chart viral_video_agency_py))"
proof -
  from assms(1) have "r = ''ProjectManager'' \<or> r = ''InfrastructureDev'' \<or>
      r = ''TemplateDev'' \<or> r = ''ScriptGenDev'' \<or> r = ''MediaDev'' \<or>
      r = ''VideoAssemblyDev'' \<or> r = ''IntegrationDev'' \<or> r = ''TestingAgent''"
    unfolding names_py by (simp only: list.set insert_iff empty_iff simp_thms)
  with assms(2) have "r = ''InfrastructureDev'' \<or> r = ''TemplateDev'' \<or>
      r = ''ScriptGenDev'' \<or> r = ''MediaDev'' \<or> r = ''VideoAssemblyDev'' \<or>
      r = ''IntegrationDev'' \<or> r = ''TestingAgent''"
    by (simp only: simp_thms)
  then show ?thesis
    unfolding edges_py by (elim disjE) simp_all
qed

lemma root_edges_nodejs:
  assumes "r \<in> set (map name roster_nodejs)" and "r \<noteq> ''ProjectManager''"
  shows "(''ProjectManager'', r) \<in> set (dispatch_edges (agency_chart viral_video_agency_nodejs))"
proof -
  from assms(1) have "r = ''ProjectManager'' \<or> r = ''NodeInfrastructureDev'' \<or>
      r = ''NodeTemplateDev'' \<or> r = ''NodeScriptGenDev'' \<or> r = ''NodeMediaDev'' \<or>
      r = ''NodeVideoAssemblyDev'' \<or> r = ''NodeCLIDev'' \<or> r = ''NodeTestingAgent''"
    unfolding names_nodejs by (simp only: list.set insert_iff empty_iff simp_thms)
  with assms(2) have "r = ''NodeInfrastructureDev'' \<or> r = ''NodeTemplateDev'' \<or>
      r = ''NodeScriptGenDev'' \<or> r = ''NodeMediaDev'' \<or> r = ''NodeVideoAssemblyDev'' \<or>
      r = ''NodeCLIDev'' \<or> r = ''NodeTestingAgent''"
    by (simp only: simp_thms)
  then show ?thesis
    unfolding edges_nodejs by (elim disjE) simp_all
qed

text \<open>The root is the one entry point of each chart.\<close>

lemma entry_point_is_root:
  "entry_points (agency_chart viral_video_agency_py) = [''ProjectManager'']"
  "entry_points (agency_chart viral_video_agency_nodejs) = [''ProjectManager'']"
  by (simp_all add: viral_video_agency_py_def viral_video_agency_nodejs_def agents_py
      agents_nodejs)

text \<open>
  Claim C6. In each roster every role other than the root \<^verbatim>\<open>ProjectManager\<close> is
  reachable from the root along dispatch edges, and none of them lacks an inbound
  dispatch edge: there is no orphan role. (The root is the entry point of the chart; the
  caller addresses it, and no role delegates to it.)
\<close>

theorem C6_non_root_roles_reachable:
  "(\<forall>r \<in> set (map name roster_py). r \<noteq> ''ProjectManager'' \<longrightarrow>
      reachable (dispatch_edges (agency_chart viral_video_agency_py)) ''ProjectManager'' r \<and>
      has_inbound (dispatch_edges (agency_chart viral_video_agency_py)) r) \<and>
   (\<forall>r \<in> set (map name roster_nodejs). r \<noteq> ''ProjectManager'' \<longrightarrow>
      reachable (dispatch_edges (agency_chart viral_video_agency_nodejs)) ''ProjectManager'' r \<and>
      has_inbound (dispatch_edges (agency_chart viral_video_agency_nodejs)) r)"
proof (intro conjI ballI impI)
  fix r
  assume "r \<in> set (map name roster_py)" and "r \<noteq> ''ProjectManager''"
  then have e: "(''ProjectManager'', r) \<in> set (dispatch_edges (agency_chart viral_video_agency_py))"
    by (rule root_edges_py)
  from e show "reachable (dispatch_edges (agency_chart viral_video_agency_py)) ''ProjectManager'' r"
    by (rule direct_edge_reachable)
  from e show "has_inbound (dispatch_edges (agency_chart viral_video_agency_py)) r"
    by (rule direct_edge_inbound)
next
  fix r
  assume "r \<in> set (map name roster_nodejs)" and "r \<noteq> ''ProjectManager''"
  then have e: "(''ProjectManager'', r) \<in> set (dispatch_edges (agency_chart viral_video_agency_nodejs))"
    by (rule root_edges_nodejs)
  from e show "reachable (dispatch_edges (agency_chart viral_video_agency_nodejs)) ''ProjectManager'' r"
    by (rule direct_edge_reachable)
  from e show "has_inbound (dispatch_edges (agency_chart viral_video_agency_nodejs)) r"
    by (rule direct_edge_inbound)
qed

theorem C6_witness:
  "''TestingAgent'' \<in> set (map name roster_py) \<and> ''TestingAgent'' \<noteq> ''ProjectManager'' \<and>
   reachable (dispatch_edges (agency_chart viral_video_agency_py)) ''ProjectManager''
     ''TestingAgent'' \<and>
   has_inbound (dispatch_edges (agency_chart viral_video_agency_py)) ''TestingAgent'' \<and>
   ''NodeCLIDev'' \<in> set (map name roster_nodejs) \<and> ''NodeCLIDev'' \<noteq> ''ProjectManager'' \<and>
   reachable (dispatch_edges (agency_chart viral_video_agency_nodejs)) ''ProjectManager''
     ''NodeCLIDev'' \<and>
   has_inbound (dispatch_edges (agency_chart viral_video_agency_nodejs)) ''NodeCLIDev''"
proof -
  have a: "''TestingAgent'' \<in> set (map name roster_py)"
    unfolding names_py by simp
  have b: "''NodeCLIDev'' \<in> set (map name roster_nodejs)"
    unfolding names_nodejs by simp
  have c: "''TestingAgent'' \<noteq> ''ProjectManager''" and d: "''NodeCLIDev'' \<noteq> ''ProjectManager''"
    by simp_all
  note main = C6_non_root_roles_reachable
  from main have py: "\<forall>r \<in> set (map name roster_py). r \<noteq> ''ProjectManager'' \<longrightarrow>
      reachable (dispatch_edges (agency_chart viral_video_agency_py)) ''ProjectManager'' r \<and>
      has_inbound (dispatch_edges (agency_chart viral_video_agency_py)) r"
    by (rule conjunct1)
  from main have nd: "\<forall>r \<in> set (map name roster_nodejs). r \<noteq> ''ProjectManager'' \<longrightarrow>
      reachable (dispatch_edges (agency_chart viral_video_agency_nodejs)) ''ProjectManager'' r \<and>
      has_inbound (dispatch_edges (agency_chart viral_video_agency_nodejs)) r"
    by (rule conjunct2)
  from py [rule_format, OF a c] nd [rule_format, OF b d] a b c d
  show ?thesis by (intro conjI) (erule conjunct1 conjunct2 | assumption)+
qed

section \<open>Properties of the capabilities\<close>

subsection \<open>Newline translation\<close>





subsection \<open>The file capability\<close>




lemma run_other:
  "operation \<noteq> ''create'' \<Longrightarrow> operation \<noteq> ''read'' \<Longrightarrow> operation \<noteq> ''write'' \<Longrightarrow>
   operation \<noteq> ''append'' \<Longrightarrow>
   FileOperationTool_run os operation p content fs = (NoneValue, fs)"
  by (simp add: FileOperationTool_run_def Let_def except_as_text_def)



text \<open>
  Claim C2. Every invocation of a capability returns a text. The file capability does
  not: an operation that is none of \<^verbatim>\<open>create\<close>, \<^verbatim>\<open>read\<close>, \<^verbatim>\<open>write\<close>, \<^verbatim>\<open>append\<close>
  matches no branch, the method ends without a \<^verbatim>\<open>return\<close> and the invocation gives
  \<^verbatim>\<open>None\<close>, leaving the file system as it was. The theorem evaluates the capability at
  the operation \<^verbatim>\<open>delete\<close>.
\<close>

theorem C2_unknown_operation_returns_None:
  "FileOperationTool_run os ''delete'' ''notes.txt'' None fs = (NoneValue, fs) \<and>
   \<not> is_text (fst (FileOperationTool_run os ''delete'' ''notes.txt'' None fs)) \<and>
   TypeScriptFileTool_run os ''delete'' ''notes.txt'' None fs = (NoneValue, fs)"
  by (simp add: run_other TypeScriptFileTool_run_def)



































subsection \<open>The process capabilities\<close>
















section \<open>Properties of the start-up\<close>







text \<open>
  With the variable unset the two build scripts do not reach their guard: the assignment
  to \<^verbatim>\<open>os.environ\<close> at the top of the module raises \<^verbatim>\<open>TypeError\<close>, which nothing
  catches, whatever the import and the change of directory would have done.
\<close>

lemma start_building_unset:
  assumes "env ''OPENAI_API_KEY'' = None"
  shows "start_building_script import_error chdir_error env = ([], Uncaught environ_type_error)"
    and "start_building_nodejs_script import_error chdir_error env =
           ([], Uncaught environ_type_error)"
  using assms
  by (simp_all add: start_building_script_def start_building_nodejs_script_def)




end
